theory Spec2Isabelle
  imports Complex_Main
begin

section \<open>JavaScript values\<close>

text \<open>
  The plugin copies values it never inspects: the JSON body of the sensor endpoint, the
  object xml2js builds from the UPnP description, the values HomeKit writes. They are
  modelled as one type of JavaScript values. A number is the rational its literal denotes
  (the program does no arithmetic on these values, it only stores and forwards them).
  An object is its list of own properties.
\<close>

datatype jsval =
    JUndefined
  | JNull
  | JBool bool
  | JNum rat
  | JStr string
  | JArr "jsval list"
  | JObj "(string \<times> jsval) list"

text \<open>The error object of a failed property read (reading a property of undefined or null).\<close>

definition TypeError :: jsval where
  "TypeError = JObj [(''name'', JStr ''TypeError'')]"

definition nullish :: "jsval \<Rightarrow> bool" where
  "nullish v = (v = JUndefined \<or> v = JNull)"

text \<open>
  \<open>property v k\<close> is the value of \<open>v.k\<close> for a \<open>v\<close> that is neither undefined nor null.
  The names this program reads (root, device, friendlyName, manufacturer, modelName, UDN,
  mstmp, msrhu, mslux, mssnd) are no built-in property of a boolean, number, string or
  array, so reading them there gives undefined.
\<close>

fun property :: "jsval \<Rightarrow> string \<Rightarrow> jsval" where
  "property (JObj kvs) k = (case map_of kvs k of None \<Rightarrow> JUndefined | Some v \<Rightarrow> v)"
| "property _ k = JUndefined"

text \<open>\<open>elem0 v\<close> is the value of \<open>v[0]\<close> for a \<open>v\<close> that is neither undefined nor null.\<close>

fun elem0 :: "jsval \<Rightarrow> jsval" where
  "elem0 (JArr []) = JUndefined"
| "elem0 (JArr (x # xs)) = x"
| "elem0 (JStr []) = JUndefined"
| "elem0 (JStr (c # cs)) = JStr [c]"
| "elem0 (JObj kvs) = (case map_of kvs ''0'' of None \<Rightarrow> JUndefined | Some v \<Rightarrow> v)"
| "elem0 _ = JUndefined"

section \<open>The host interface\<close>

text \<open>
  \<open>rinfo\<close> is the remote-address record node-ssdp hands to the response listener;
  \<open>headers\<close> are the SSDP headers, of which the program reads only USN. The USN is a
  string, possibly the empty one; a response that has no USN header at all is not part of
  the model.
\<close>

record rinfo =
  address :: string
  family :: string
  port :: nat

record headers =
  USN :: string

text \<open>
  A platform accessory of the host: its display name, its UUID and the two entries the
  plugin keeps in \<open>accessory.context\<close>. A context without \<open>device\<close> has
  \<open>context_device = None\<close>; one without \<open>upnpData\<close> has \<open>context_upnpData = JUndefined\<close>.
\<close>

record PlatformAccessory =
  displayName :: jsval
  UUID :: string
  context_device :: "rinfo option"
  context_upnpData :: jsval

datatype service =
    Service_AccessoryInformation
  | Service_Lightbulb
  | Service_TemperatureSensor
  | Service_HumiditySensor
  | Service_LightSensor

datatype characteristic =
    Characteristic_Manufacturer
  | Characteristic_Model
  | Characteristic_SerialNumber
  | Characteristic_Name
  | Characteristic_On
  | Characteristic_Brightness
  | Characteristic_CurrentTemperature
  | Characteristic_CurrentRelativeHumidity
  | Characteristic_CurrentAmbientLightLevel

text \<open>
  Everything the plugin does to its environment, in the order it does it: log lines,
  calls on the accessory's services, the callback of a get or set request, HTTP requests,
  calls on Node's timer interface (\<open>setInterval\<close> and \<open>clearInterval\<close>; the source
  calls only the first and drops the handle it returns), registration with the host, and
  an exception that leaves a listener uncaught.
  \<open>GetService s\<close> stands for \<open>accessory.getService(s)\<close>, with the fall-back to
  \<open>accessory.addService(s)\<close> where the source has one.
  The two name constants passed to \<open>registerPlatformAccessories\<close> come from a settings
  module and are left out.
\<close>

datatype effect =
    LogInfo "jsval list"
  | GetService service
  | SetCharacteristic service characteristic jsval
  | OnEvent service characteristic string string
  | UpdateValue service characteristic jsval
  | Callback "jsval list"
  | HttpGet string
  | SetInterval nat
  | ClearInterval
  | RegisterPlatformAccessories "PlatformAccessory list"
  | Throw jsval

fun is_HttpGet :: "effect \<Rightarrow> bool" where
  "is_HttpGet (HttpGet url) = True"
| "is_HttpGet _ = False"

fun is_timer :: "effect \<Rightarrow> bool" where
  "is_timer (SetInterval ms) = True"
| "is_timer ClearInterval = True"
| "is_timer _ = False"


fun is_LogInfo :: "effect \<Rightarrow> bool" where
  "is_LogInfo (LogInfo args) = True"
| "is_LogInfo _ = False"

section \<open>The accessory handler\<close>

record somneoState =
  On :: jsval
  Brightness :: jsval
  Temperature :: jsval
  Humidity :: jsval
  LightLevel :: jsval
  Sound :: jsval

record SomneoAccessory =
  accessory :: PlatformAccessory
  somneoState :: somneoState

text \<open>The field initialiser of \<open>somneoState\<close>.\<close>

definition initial_somneoState :: somneoState where
  "initial_somneoState =
     \<lparr>On = JBool False, Brightness = JNum 100, Temperature = JNum 0,
      Humidity = JNum 0, LightLevel = JNum 0, Sound = JNum 0\<rparr>"

text \<open>
  \<open>updateSensorData\<close> up to the point where the request is sent: it builds the endpoint
  from \<open>accessory.context.device.address\<close> and issues the GET. The rest of it runs when
  the request settles (\<open>updateSensorData_settled\<close>).
\<close>

definition updateSensorData :: "SomneoAccessory \<Rightarrow> effect list \<times> (jsval + unit)" where
  "updateSensorData this =
     (case context_device (accessory this) of
        None \<Rightarrow> ([], Inl TypeError)
      | Some dev \<Rightarrow>
          ([HttpGet (''https://'' @ address dev @ ''/di/v1/products/1/wusrd'')], Inr ()))"

text \<open>
  How a GET settles: the promise resolves with a response whose \<open>data\<close> is given, or it
  rejects with an error value.
\<close>

datatype outcome = Resolved jsval | Rejected jsval

text \<open>
  The \<open>then\<close> and \<open>catch\<close> handlers of \<open>updateSensorData\<close>. When \<open>response.data\<close> is
  undefined or null the first assignment throws before anything is stored, and the
  \<open>catch\<close> handler logs that error.
\<close>

definition updateSensorData_settled ::
    "outcome \<Rightarrow> SomneoAccessory \<Rightarrow> SomneoAccessory \<times> effect list" where
  "updateSensorData_settled r this =
     (case r of
        Rejected error \<Rightarrow> (this, [LogInfo [error]])
      | Resolved data \<Rightarrow>
          if nullish data
          then (this, [LogInfo [JStr ''Updating Sensors''], LogInfo [TypeError]])
          else
            let s = (somneoState this)
                      \<lparr>Temperature := property data ''mstmp'',
                       Humidity := property data ''msrhu'',
                       LightLevel := property data ''mslux'',
                       Sound := property data ''mssnd''\<rparr>
            in (this\<lparr>somneoState := s\<rparr>,
                [LogInfo [JStr ''Updating Sensors''],
                 UpdateValue Service_TemperatureSensor Characteristic_CurrentTemperature
                   (Temperature s),
                 UpdateValue Service_HumiditySensor Characteristic_CurrentRelativeHumidity
                   (Humidity s),
                 UpdateValue Service_LightSensor Characteristic_CurrentAmbientLightLevel
                   (LightLevel s)]))"

definition getTemperature :: "SomneoAccessory \<Rightarrow> SomneoAccessory \<times> effect list" where
  "getTemperature this =
     (let currentTemperature = Temperature (somneoState this)
      in (this, [LogInfo [JStr ''Get Temperature ->'', currentTemperature],
                 Callback [JNull, currentTemperature]]))"

definition getHumidity :: "SomneoAccessory \<Rightarrow> SomneoAccessory \<times> effect list" where
  "getHumidity this =
     (let currentHumidity = Humidity (somneoState this)
      in (this, [LogInfo [JStr ''Get Humidity ->'', currentHumidity],
                 Callback [JNull, currentHumidity]]))"

definition getLightLevel :: "SomneoAccessory \<Rightarrow> SomneoAccessory \<times> effect list" where
  "getLightLevel this =
     (let currentLightLevel = LightLevel (somneoState this)
      in (this, [LogInfo [JStr ''Get Light Level ->'', currentLightLevel],
                 Callback [JNull, currentLightLevel]]))"

text \<open>The cast \<open>value as boolean\<close> is erased at run time: the value is stored as it comes.\<close>

definition setOn :: "jsval \<Rightarrow> SomneoAccessory \<Rightarrow> SomneoAccessory \<times> effect list" where
  "setOn val this =
     (this\<lparr>somneoState := (somneoState this)\<lparr>On := val\<rparr>\<rparr>,
      [LogInfo [JStr ''Set Characteristic On ->'', val], Callback [JNull]])"

definition getOn :: "SomneoAccessory \<Rightarrow> SomneoAccessory \<times> effect list" where
  "getOn this =
     (let isOn = On (somneoState this)
      in (this, [LogInfo [JStr ''Get Characteristic On ->'', isOn], Callback [JNull, isOn]]))"

definition setBrightness :: "jsval \<Rightarrow> SomneoAccessory \<Rightarrow> SomneoAccessory \<times> effect list" where
  "setBrightness val this =
     (this\<lparr>somneoState := (somneoState this)\<lparr>Brightness := val\<rparr>\<rparr>,
      [LogInfo [JStr ''Set Characteristic Brightness -> '', val], Callback [JNull]])"

text \<open>
  The constructor. It returns what it did and either the exception it threw or the new
  handler object. The reads of \<open>accessory.context.device.address\<close> and of the properties
  of \<open>accessory.context.upnpData\<close> throw when the object read from is missing; the
  arguments of \<open>setCharacteristic\<close> are evaluated after \<open>getService\<close> has been called.
\<close>

definition SomneoAccessory_new ::
    "PlatformAccessory \<Rightarrow> effect list \<times> (jsval + SomneoAccessory)" where
  "SomneoAccessory_new acc =
     (let this = \<lparr>accessory = acc, somneoState = initial_somneoState\<rparr> in
      case context_device acc of
        None \<Rightarrow> ([], Inl TypeError)
      | Some dev \<Rightarrow>
          let upnpData = context_upnpData acc;
              e1 = [LogInfo [JStr ''Somneo IP ->'', JStr (address dev)],
                    GetService Service_AccessoryInformation]
          in if nullish upnpData then (e1, Inl TypeError)
             else
               let e2 =
                     [SetCharacteristic Service_AccessoryInformation Characteristic_Manufacturer
                        (property upnpData ''manufacturer''),
                      SetCharacteristic Service_AccessoryInformation Characteristic_Model
                        (property upnpData ''modelName''),
                      SetCharacteristic Service_AccessoryInformation Characteristic_SerialNumber
                        (property upnpData ''UDN''),
                      GetService Service_Lightbulb,
                      SetCharacteristic Service_Lightbulb Characteristic_Name
                        (property upnpData ''friendlyName''),
                      OnEvent Service_Lightbulb Characteristic_On ''set'' ''setOn'',
                      OnEvent Service_Lightbulb Characteristic_On ''get'' ''getOn'',
                      OnEvent Service_Lightbulb Characteristic_Brightness ''set'' ''setBrightness'',
                      GetService Service_TemperatureSensor,
                      OnEvent Service_TemperatureSensor Characteristic_CurrentTemperature
                        ''get'' ''getTemperature'',
                      GetService Service_HumiditySensor,
                      OnEvent Service_HumiditySensor Characteristic_CurrentRelativeHumidity
                        ''get'' ''getHumidity'',
                      GetService Service_LightSensor,
                      OnEvent Service_LightSensor Characteristic_CurrentAmbientLightLevel
                        ''get'' ''getLightLevel''];
                   (e3, r) = updateSensorData this
               in (case r of
                     Inl err \<Rightarrow> (e1 @ e2 @ e3, Inl err)
                   | Inr u \<Rightarrow> (e1 @ e2 @ e3 @ [SetInterval (60 * 1000)], Inr this)))"

text \<open>
  What can happen to a handler object after its construction: HomeKit reads or writes a
  characteristic, the interval timer fires, or a sensor request settles.
\<close>

datatype acc_event =
    GetOn
  | SetOn jsval
  | SetBrightness jsval
  | GetTemperature
  | GetHumidity
  | GetLightLevel
  | IntervalFired
  | SensorSettled outcome

fun acc_step :: "acc_event \<Rightarrow> SomneoAccessory \<Rightarrow> SomneoAccessory \<times> effect list" where
  "acc_step GetOn this = getOn this"
| "acc_step (SetOn v) this = setOn v this"
| "acc_step (SetBrightness v) this = setBrightness v this"
| "acc_step GetTemperature this = getTemperature this"
| "acc_step GetHumidity this = getHumidity this"
| "acc_step GetLightLevel this = getLightLevel this"
| "acc_step IntervalFired this =
     (case updateSensorData this of
        (es, Inl err) \<Rightarrow> (this, es @ [Throw err])
      | (es, Inr u) \<Rightarrow> (this, es))"
| "acc_step (SensorSettled r) this = updateSensorData_settled r this"

fun acc_run :: "acc_event list \<Rightarrow> SomneoAccessory \<Rightarrow> SomneoAccessory" where
  "acc_run [] this = this"
| "acc_run (e # es) this = acc_run es (fst (acc_step e this))"


text \<open>A poll that stores new sensor values: the request resolved with a body to read from.\<close>

fun successful_poll :: "acc_event \<Rightarrow> bool" where
  "successful_poll (SensorSettled (Resolved data)) = (\<not> nullish data)"
| "successful_poll _ = False"

section \<open>The description parser\<close>

text \<open>
  The description is parsed by xml2js, a library outside this program. The call
  \<open>xml2js.parseString(response.data, callback)\<close> passes no options, so the parser builds
  its result with its defaults: the result is an object with one property, named after the
  root element; an element with child elements becomes an object that maps each child name
  to the array of the children of that name, in document order; an element with text only
  becomes that string, an empty element the empty string. The program relies on these
  arrays itself when it reads \<open>result.root.device[0]\<close>. Attributes, which the parser puts
  under a key of their own, are left out: the program reads none.
  A document is the name of its root element and that element's content.
\<close>

datatype xml = Text string | Element "(string \<times> xml) list"

fun group_children :: "(string \<times> 'a) list \<Rightarrow> (string \<times> 'a list) list" where
  "group_children [] = []"
| "group_children ((n, v) # cs) =
     (n, v # map snd (filter (\<lambda>c. fst c = n) cs))
       # group_children (filter (\<lambda>c. fst c \<noteq> n) cs)"

fun xml2js_value :: "xml \<Rightarrow> jsval" where
  "xml2js_value (Text s) = JStr s"
| "xml2js_value (Element cs) =
     (if cs = [] then JStr []
      else JObj (map (\<lambda>(n, vs). (n, JArr vs))
                  (group_children (map (\<lambda>(n, c). (n, xml2js_value c)) cs))))"

definition xml2js_parseString :: "string \<times> xml \<Rightarrow> jsval" where
  "xml2js_parseString doc = JObj [(fst doc, xml2js_value (snd doc))]"

section \<open>The platform\<close>

text \<open>
  The two fields of the platform object, and around them what the model needs of the
  running process: the effects so far, the handler objects constructed so far, and the
  description requests in flight, each with the \<open>uuid\<close> and \<open>rinfo\<close> its continuation
  has captured.
\<close>

record SomneoPlatform =
  accessories :: "PlatformAccessory list"
  registered_usns :: "string list"

record process = SomneoPlatform +
  trace :: "effect list"
  handlers :: "SomneoAccessory list"
  pending :: "(string \<times> rinfo) list"

definition configureAccessory :: "PlatformAccessory \<Rightarrow> process \<Rightarrow> process" where
  "configureAccessory acc this =
     this\<lparr>trace := trace this @ [LogInfo [JStr ''Loading accessory from cache:'', displayName acc]],
          accessories := accessories this @ [acc]\<rparr>"

text \<open>
  The test \<open>if (this.registered_usns.find(usn => usn === headers.USN))\<close>: \<open>find\<close> gives
  the first element that satisfies the predicate, or undefined, and \<open>if\<close> takes the
  branch when that value is truthy. A string is truthy when it is not empty.
\<close>

definition usn_registered :: "string \<Rightarrow> string list \<Rightarrow> bool" where
  "usn_registered u usns =
     (case find (\<lambda>usn. usn = u) usns of None \<Rightarrow> False | Some usn \<Rightarrow> usn \<noteq> [])"

text \<open>
  The listener of the SSDP client's response event. \<open>generate\<close> is the host's function
  from a string to a UUID. A handler constructor that throws leaves the listener with that
  exception.
\<close>

definition on_response ::
    "(string \<Rightarrow> string) \<Rightarrow> headers \<Rightarrow> rinfo \<Rightarrow> process \<Rightarrow> process" where
  "on_response generate hdrs ri this =
     (if usn_registered (USN hdrs) (registered_usns this) then this
      else
        let this1 = this\<lparr>registered_usns := registered_usns this @ [USN hdrs]\<rparr>;
            uuid = generate (USN hdrs)
        in (case find (\<lambda>a. UUID a = uuid) (accessories this1) of
              Some existingAccessory \<Rightarrow>
                (let l = [LogInfo [JStr ''Restoring existing accessory from cache:'',
                                   displayName existingAccessory],
                          LogInfo [JStr ''   UUID:'', JStr uuid]]
                 in (case SomneoAccessory_new existingAccessory of
                       (es, Inl err) \<Rightarrow> this1\<lparr>trace := trace this1 @ l @ es @ [Throw err]\<rparr>
                     | (es, Inr h) \<Rightarrow>
                         this1\<lparr>trace := trace this1 @ l @ es,
                               handlers := handlers this1 @ [h]\<rparr>))
            | None \<Rightarrow>
                this1\<lparr>trace := trace this1 @
                         [LogInfo [JStr ''Adding new accessory:'', JStr uuid],
                          HttpGet (''https://'' @ address ri @ ''/upnp/description.xml'')],
                      pending := pending this1 @ [(uuid, ri)]\<rparr>))"

text \<open>
  The callback given to \<open>xml2js.parseString\<close>, called with the parser's \<open>result\<close> (its
  \<open>err\<close> argument is not looked at). It returns what it did and either the exception it
  threw or the accessory and the handler it made. \<open>result.root.device\<close> is logged first,
  then \<open>result.root.device[0].friendlyName\<close> is read for the new accessory's name.
\<close>

definition description_callback ::
    "string \<Rightarrow> rinfo \<Rightarrow> jsval \<Rightarrow> effect list \<times> (jsval + PlatformAccessory \<times> SomneoAccessory)" where
  "description_callback uuid ri result =
     (if nullish result then ([], Inl TypeError)
      else if nullish (property result ''root'') then ([], Inl TypeError)
      else
        let devs = property (property result ''root'') ''device'';
            l = [LogInfo [devs]]
        in if nullish devs then (l, Inl TypeError)
           else if nullish (elem0 devs) then (l, Inl TypeError)
           else
             let acc = \<lparr>displayName = property (elem0 devs) ''friendlyName'', UUID = uuid,
                        context_device = Some ri, context_upnpData = elem0 devs\<rparr>
             in (case SomneoAccessory_new acc of
                   (es, Inl err) \<Rightarrow> (l @ es, Inl err)
                 | (es, Inr h) \<Rightarrow>
                     (l @ es @ [RegisterPlatformAccessories [acc]], Inr (acc, h))))"

text \<open>
  How the description request settles: the GET rejects with an error, or it resolves and
  xml2js calls the callback with \<open>result\<close>. Whether an exception thrown inside that
  callback comes out of \<open>parseString\<close> again, and so reaches the \<open>catch\<close> handler that
  logs it, is decided inside xml2js: it is the flag \<open>escapes\<close>.
\<close>

datatype description = GetRejected jsval | GetParsed jsval bool

definition description_settled :: "nat \<Rightarrow> description \<Rightarrow> process \<Rightarrow> process" where
  "description_settled i d this =
     (if i < length (pending this) then
        let (uuid, ri) = pending this ! i;
            this1 = this\<lparr>pending := take i (pending this) @ drop (Suc i) (pending this)\<rparr>
        in (case d of
              GetRejected error \<Rightarrow> this1\<lparr>trace := trace this1 @ [LogInfo [error]]\<rparr>
            | GetParsed result escapes \<Rightarrow>
                (case description_callback uuid ri result of
                   (es, Inl err) \<Rightarrow>
                     this1\<lparr>trace := trace this1 @ es @ (if escapes then [LogInfo [err]] else [])\<rparr>
                 | (es, Inr (acc, h)) \<Rightarrow>
                     this1\<lparr>trace := trace this1 @ es, handlers := handlers this1 @ [h]\<rparr>))
      else this)"

text \<open>
  The events of the platform: the host restores a cached accessory, an SSDP response
  arrives, or the description request at position \<open>i\<close> of the requests in flight settles.
\<close>

datatype event =
    ConfigureAccessory PlatformAccessory
  | Response headers rinfo
  | DescriptionSettled nat description

fun step :: "(string \<Rightarrow> string) \<Rightarrow> event \<Rightarrow> process \<Rightarrow> process" where
  "step generate (ConfigureAccessory acc) this = configureAccessory acc this"
| "step generate (Response hdrs ri) this = on_response generate hdrs ri this"
| "step generate (DescriptionSettled i d) this = description_settled i d this"

fun run :: "(string \<Rightarrow> string) \<Rightarrow> event list \<Rightarrow> process \<Rightarrow> process" where
  "run generate [] this = this"
| "run generate (e # es) this = run generate es (step generate e this)"

text \<open>The accessories handed to the host by the registrations in a trace.\<close>

fun registered :: "effect list \<Rightarrow> PlatformAccessory list" where
  "registered [] = []"
| "registered (RegisterPlatformAccessories accs # es) = accs @ registered es"
| "registered (e # es) = registered es"

text \<open>The process before the host has restored anything.\<close>

definition start :: process where
  "start = \<lparr>accessories = [], registered_usns = [], trace = [], handlers = [], pending = []\<rparr>"

section \<open>Properties of the accessory handler\<close>

subsection \<open>Auxiliary facts\<close>

lemma acc_step_keeps_sensors:
  "\<not> successful_poll e \<Longrightarrow>
     Temperature (somneoState (fst (acc_step e this))) = Temperature (somneoState this) \<and>
     Humidity (somneoState (fst (acc_step e this))) = Humidity (somneoState this) \<and>
     LightLevel (somneoState (fst (acc_step e this))) = LightLevel (somneoState this) \<and>
     Sound (somneoState (fst (acc_step e this))) = Sound (somneoState this)"
proof (cases e)
  case (SensorSettled r)
  assume "\<not> successful_poll e"
  with SensorSettled show ?thesis
    by (cases r) (simp_all add: updateSensorData_settled_def)
next
  case IntervalFired
  then show ?thesis by (simp split: prod.split sum.split)
qed (simp_all add: getOn_def setOn_def setBrightness_def getTemperature_def
       getHumidity_def getLightLevel_def Let_def)

lemma acc_run_keeps_sensors:
  "list_all (\<lambda>e. \<not> successful_poll e) evs \<Longrightarrow>
     Temperature (somneoState (acc_run evs this)) = Temperature (somneoState this) \<and>
     Humidity (somneoState (acc_run evs this)) = Humidity (somneoState this) \<and>
     LightLevel (somneoState (acc_run evs this)) = LightLevel (somneoState this) \<and>
     Sound (somneoState (acc_run evs this)) = Sound (somneoState this)"
proof (induction evs arbitrary: this)
  case Nil
  show ?case by simp
next
  case (Cons e evs)
  from Cons.prems have e: "\<not> successful_poll e"
    and rest: "list_all (\<lambda>e. \<not> successful_poll e) evs"
    by simp_all
  show ?case
    using Cons.IH [OF rest, of "fst (acc_step e this)"] acc_step_keeps_sensors [OF e, of this]
    by simp
qed

lemma acc_step_accessory: "accessory (fst (acc_step e this)) = accessory this"
proof (cases e)
  case (SensorSettled r)
  then show ?thesis
    by (cases r) (simp_all add: updateSensorData_settled_def Let_def)
next
  case IntervalFired
  then show ?thesis by (simp split: prod.split sum.split)
qed (simp_all add: getOn_def setOn_def setBrightness_def getTemperature_def
       getHumidity_def getLightLevel_def Let_def)

lemma acc_run_accessory: "accessory (acc_run evs this) = accessory this"
  by (induction evs arbitrary: this) (simp_all add: acc_step_accessory)

lemma acc_step_no_timer: "filter is_timer (snd (acc_step e this)) = []"
proof (cases e)
  case (SensorSettled r)
  then show ?thesis
    by (cases r) (simp_all add: updateSensorData_settled_def Let_def)
next
  case IntervalFired
  then show ?thesis
    by (simp add: updateSensorData_def split: option.split)
qed (simp_all add: getOn_def setOn_def setBrightness_def getTemperature_def
       getHumidity_def getLightLevel_def Let_def)





lemma SomneoAccessory_new_ok:
  assumes "snd (SomneoAccessory_new acc) = Inr this"
  obtains dev where "context_device acc = Some dev" and "\<not> nullish (context_upnpData acc)"
    and "this = \<lparr>accessory = acc, somneoState = initial_somneoState\<rparr>"
    and "filter is_HttpGet (fst (SomneoAccessory_new acc))
           = [HttpGet (''https://'' @ address dev @ ''/di/v1/products/1/wusrd'')]"
    and "filter is_timer (fst (SomneoAccessory_new acc)) = [SetInterval 60000]"
    and "registered (fst (SomneoAccessory_new acc)) = []"
    and "last (fst (SomneoAccessory_new acc)) = SetInterval 60000"
  using assms
  by (auto simp: SomneoAccessory_new_def updateSensorData_def Let_def
           split: option.splits if_splits)


subsection \<open>Sensor values\<close>

text \<open>
  C3. After a poll that resolved with the body
  \<open>{mstmp: 21.5, msrhu: 45, mslux: 120, mssnd: 0}\<close>, and after any further events none of
  which is a poll that stores new values, a temperature read answers 21.5, a humidity
  read 45 and a light-level read 120.
\<close>

theorem poll_values_are_read_back:
  assumes "list_all (\<lambda>e. \<not> successful_poll e) evs"
  shows "snd (getTemperature (acc_run evs (fst (updateSensorData_settled
            (Resolved (JObj [(''mstmp'', JNum 21.5), (''msrhu'', JNum 45),
                             (''mslux'', JNum 120), (''mssnd'', JNum 0)])) this))))
           = [LogInfo [JStr ''Get Temperature ->'', JNum 21.5], Callback [JNull, JNum 21.5]]
       \<and> snd (getHumidity (acc_run evs (fst (updateSensorData_settled
            (Resolved (JObj [(''mstmp'', JNum 21.5), (''msrhu'', JNum 45),
                             (''mslux'', JNum 120), (''mssnd'', JNum 0)])) this))))
           = [LogInfo [JStr ''Get Humidity ->'', JNum 45], Callback [JNull, JNum 45]]
       \<and> snd (getLightLevel (acc_run evs (fst (updateSensorData_settled
            (Resolved (JObj [(''mstmp'', JNum 21.5), (''msrhu'', JNum 45),
                             (''mslux'', JNum 120), (''mssnd'', JNum 0)])) this))))
           = [LogInfo [JStr ''Get Light Level ->'', JNum 120], Callback [JNull, JNum 120]]"
  using acc_run_keeps_sensors [OF assms]
  by (simp add: getTemperature_def getHumidity_def getLightLevel_def
        updateSensorData_settled_def nullish_def Let_def)

theorem poll_values_are_read_back_witness:
  "list_all (\<lambda>e. \<not> successful_poll e)
     [SetOn (JBool True), SensorSettled (Rejected (JStr ''ETIMEDOUT'')), IntervalFired,
      GetTemperature, SetBrightness (JNum 55), SensorSettled (Resolved JUndefined)]
   \<and> snd (getTemperature (acc_run
        [SetOn (JBool True), SensorSettled (Rejected (JStr ''ETIMEDOUT'')), IntervalFired,
         GetTemperature, SetBrightness (JNum 55), SensorSettled (Resolved JUndefined)]
        (fst (updateSensorData_settled
            (Resolved (JObj [(''mstmp'', JNum 21.5), (''msrhu'', JNum 45),
                             (''mslux'', JNum 120), (''mssnd'', JNum 0)]))
            \<lparr>accessory =
               \<lparr>displayName = JStr ''Somneo'', UUID = ''u1'',
                context_device =
                  Some \<lparr>address = ''192.168.1.20'', family = ''IPv4'', port = 1900\<rparr>,
                context_upnpData = JObj [(''friendlyName'', JStr ''Somneo'')]\<rparr>,
             somneoState = initial_somneoState\<rparr>))))
       = [LogInfo [JStr ''Get Temperature ->'', JNum 21.5], Callback [JNull, JNum 21.5]]"
proof -
  have h: "list_all (\<lambda>e. \<not> successful_poll e)
     [SetOn (JBool True), SensorSettled (Rejected (JStr ''ETIMEDOUT'')), IntervalFired,
      GetTemperature, SetBrightness (JNum 55), SensorSettled (Resolved JUndefined)]"
    by (simp add: nullish_def)
  from poll_values_are_read_back [OF h] h show ?thesis
    by blast
qed

text \<open>
  C4. A poll whose request fails leaves the handler object as it was: the failure is
  logged, the stored temperature, humidity, light level and sound are the ones from
  before, and the reads answer as they did before.
\<close>

theorem failed_poll_keeps_state:
  "fst (updateSensorData_settled (Rejected error) this) = this
   \<and> snd (updateSensorData_settled (Rejected error) this) = [LogInfo [error]]
   \<and> somneoState (fst (updateSensorData_settled (Rejected error) this)) = somneoState this
   \<and> getTemperature (fst (updateSensorData_settled (Rejected error) this)) = getTemperature this
   \<and> getHumidity (fst (updateSensorData_settled (Rejected error) this)) = getHumidity this
   \<and> getLightLevel (fst (updateSensorData_settled (Rejected error) this)) = getLightLevel this"
  by (simp add: updateSensorData_settled_def)

subsection \<open>Writes\<close>

text \<open>
  C5. A brightness write stores the value in the Brightness field and leaves the On flag,
  the temperature, the humidity, the light level and the sound as they were, so a power
  read after it answers as before; a power write stores the value in the On field and
  leaves the five other fields as they were.
\<close>

theorem writes_change_one_field:
  "somneoState (fst (setBrightness v this)) = (somneoState this)\<lparr>Brightness := v\<rparr>
   \<and> accessory (fst (setBrightness v this)) = accessory this
   \<and> On (somneoState (fst (setBrightness v this))) = On (somneoState this)
   \<and> Temperature (somneoState (fst (setBrightness v this))) = Temperature (somneoState this)
   \<and> Humidity (somneoState (fst (setBrightness v this))) = Humidity (somneoState this)
   \<and> LightLevel (somneoState (fst (setBrightness v this))) = LightLevel (somneoState this)
   \<and> Sound (somneoState (fst (setBrightness v this))) = Sound (somneoState this)
   \<and> snd (getOn (fst (setBrightness v this))) = snd (getOn this)
   \<and> somneoState (fst (setOn b this)) = (somneoState this)\<lparr>On := b\<rparr>
   \<and> accessory (fst (setOn b this)) = accessory this
   \<and> Brightness (somneoState (fst (setOn b this))) = Brightness (somneoState this)
   \<and> Temperature (somneoState (fst (setOn b this))) = Temperature (somneoState this)
   \<and> Humidity (somneoState (fst (setOn b this))) = Humidity (somneoState this)
   \<and> LightLevel (somneoState (fst (setOn b this))) = LightLevel (somneoState this)
   \<and> Sound (somneoState (fst (setOn b this))) = Sound (somneoState this)"
  by (simp add: setBrightness_def setOn_def getOn_def Let_def)

text \<open>
  C6. The power and brightness set handlers send no HTTP request: all they do is store
  the value, write one log line and call the callback with null.
\<close>

theorem writes_make_no_request:
  "snd (setOn v this) = [LogInfo [JStr ''Set Characteristic On ->'', v], Callback [JNull]]
   \<and> filter is_HttpGet (snd (setOn v this)) = []
   \<and> snd (setBrightness v this)
       = [LogInfo [JStr ''Set Characteristic Brightness -> '', v], Callback [JNull]]
   \<and> filter is_HttpGet (snd (setBrightness v this)) = []
   \<and> fst (setOn v this) = this\<lparr>somneoState := (somneoState this)\<lparr>On := v\<rparr>\<rparr>
   \<and> fst (setBrightness v this) = this\<lparr>somneoState := (somneoState this)\<lparr>Brightness := v\<rparr>\<rparr>"
  by (simp add: setBrightness_def setOn_def)

subsection \<open>Construction\<close>

text \<open>
  C8. A handler object that the constructor returns starts with the On flag false,
  brightness 100, and temperature, humidity, light level and sound all 0.
\<close>

theorem new_handler_initial_state:
  assumes "snd (SomneoAccessory_new acc) = Inr this"
  shows "somneoState this =
           \<lparr>On = JBool False, Brightness = JNum 100, Temperature = JNum 0,
            Humidity = JNum 0, LightLevel = JNum 0, Sound = JNum 0\<rparr>"
  using assms by (elim SomneoAccessory_new_ok) (simp add: initial_somneoState_def)

theorem new_handler_initial_state_witness:
  "snd (SomneoAccessory_new
     \<lparr>displayName = JStr ''Somneo'', UUID = ''u1'',
      context_device = Some \<lparr>address = ''192.168.1.20'', family = ''IPv4'', port = 1900\<rparr>,
      context_upnpData = JObj [(''friendlyName'', JStr ''Somneo'')]\<rparr>)
   = Inr \<lparr>accessory = \<lparr>displayName = JStr ''Somneo'', UUID = ''u1'',
      context_device = Some \<lparr>address = ''192.168.1.20'', family = ''IPv4'', port = 1900\<rparr>,
      context_upnpData = JObj [(''friendlyName'', JStr ''Somneo'')]\<rparr>, somneoState = initial_somneoState\<rparr>
  \<and> somneoState \<lparr>accessory = \<lparr>displayName = JStr ''Somneo'', UUID = ''u1'',
      context_device = Some \<lparr>address = ''192.168.1.20'', family = ''IPv4'', port = 1900\<rparr>,
      context_upnpData = JObj [(''friendlyName'', JStr ''Somneo'')]\<rparr>, somneoState = initial_somneoState\<rparr>
    = \<lparr>On = JBool False, Brightness = JNum 100, Temperature = JNum 0,
            Humidity = JNum 0, LightLevel = JNum 0, Sound = JNum 0\<rparr>"
proof -
  have h: "snd (SomneoAccessory_new
     \<lparr>displayName = JStr ''Somneo'', UUID = ''u1'',
      context_device = Some \<lparr>address = ''192.168.1.20'', family = ''IPv4'', port = 1900\<rparr>,
      context_upnpData = JObj [(''friendlyName'', JStr ''Somneo'')]\<rparr>)
   = Inr \<lparr>accessory = \<lparr>displayName = JStr ''Somneo'', UUID = ''u1'',
      context_device = Some \<lparr>address = ''192.168.1.20'', family = ''IPv4'', port = 1900\<rparr>,
      context_upnpData = JObj [(''friendlyName'', JStr ''Somneo'')]\<rparr>, somneoState = initial_somneoState\<rparr>"
    by (simp add: SomneoAccessory_new_def updateSensorData_def nullish_def Let_def)
  from h new_handler_initial_state [OF h] show ?thesis by blast
qed

text \<open>
  C9. A constructor that returns a handler object has sent the sensor request once, as
  \<open>updateSensorData\<close> sends it, and then, as its last act, has set one interval timer of
  \<open>60 * 1000\<close> milliseconds. After any events, a firing of that timer sends the sensor
  request again and leaves the object as it is, and no event makes the handler set or
  clear a timer. (The source comments the period as five minutes; the number it passes is
  the one stated here.)
\<close>

theorem refresh_once_then_every_minute:
  assumes "snd (SomneoAccessory_new acc) = Inr this"
  shows "filter is_HttpGet (fst (SomneoAccessory_new acc)) = fst (updateSensorData this)
       \<and> length (filter is_HttpGet (fst (SomneoAccessory_new acc))) = 1
       \<and> filter is_timer (fst (SomneoAccessory_new acc)) = [SetInterval (60 * 1000)]
       \<and> last (fst (SomneoAccessory_new acc)) = SetInterval 60000
       \<and> acc_step IntervalFired (acc_run evs this) = (acc_run evs this, fst (updateSensorData this))
       \<and> filter is_timer (snd (acc_step e (acc_run evs this))) = []"
proof -
  from assms obtain dev where dev: "context_device acc = Some dev"
    and self: "this = \<lparr>accessory = acc, somneoState = initial_somneoState\<rparr>"
    and get: "filter is_HttpGet (fst (SomneoAccessory_new acc))
                = [HttpGet (''https://'' @ address dev @ ''/di/v1/products/1/wusrd'')]"
    and timer: "filter is_timer (fst (SomneoAccessory_new acc)) = [SetInterval 60000]"
    and last: "last (fst (SomneoAccessory_new acc)) = SetInterval 60000"
    by (elim SomneoAccessory_new_ok)
  have acc: "accessory (acc_run evs this) = acc"
    using self by (simp add: acc_run_accessory)
  have u: "updateSensorData this
             = ([HttpGet (''https://'' @ address dev @ ''/di/v1/products/1/wusrd'')], Inr ())"
    using self dev by (simp add: updateSensorData_def)
  have u': "updateSensorData (acc_run evs this) = updateSensorData this"
    using acc self by (simp add: updateSensorData_def)
  show ?thesis
    using get timer last u u' by (simp add: acc_step_no_timer)
qed

theorem refresh_once_then_every_minute_witness:
  "snd (SomneoAccessory_new
     \<lparr>displayName = JStr ''Somneo'', UUID = ''u1'',
      context_device = Some \<lparr>address = ''192.168.1.20'', family = ''IPv4'', port = 1900\<rparr>,
      context_upnpData = JObj [(''friendlyName'', JStr ''Somneo'')]\<rparr>)
   = Inr \<lparr>accessory = \<lparr>displayName = JStr ''Somneo'', UUID = ''u1'',
      context_device = Some \<lparr>address = ''192.168.1.20'', family = ''IPv4'', port = 1900\<rparr>,
      context_upnpData = JObj [(''friendlyName'', JStr ''Somneo'')]\<rparr>, somneoState = initial_somneoState\<rparr>
  \<and> filter is_timer (fst (SomneoAccessory_new
     \<lparr>displayName = JStr ''Somneo'', UUID = ''u1'',
      context_device = Some \<lparr>address = ''192.168.1.20'', family = ''IPv4'', port = 1900\<rparr>,
      context_upnpData = JObj [(''friendlyName'', JStr ''Somneo'')]\<rparr>)) = [SetInterval (60 * 1000)]
  \<and> length (filter is_HttpGet (fst (SomneoAccessory_new
     \<lparr>displayName = JStr ''Somneo'', UUID = ''u1'',
      context_device = Some \<lparr>address = ''192.168.1.20'', family = ''IPv4'', port = 1900\<rparr>,
      context_upnpData = JObj [(''friendlyName'', JStr ''Somneo'')]\<rparr>))) = 1"
proof -
  have h: "snd (SomneoAccessory_new
     \<lparr>displayName = JStr ''Somneo'', UUID = ''u1'',
      context_device = Some \<lparr>address = ''192.168.1.20'', family = ''IPv4'', port = 1900\<rparr>,
      context_upnpData = JObj [(''friendlyName'', JStr ''Somneo'')]\<rparr>)
   = Inr \<lparr>accessory = \<lparr>displayName = JStr ''Somneo'', UUID = ''u1'',
      context_device = Some \<lparr>address = ''192.168.1.20'', family = ''IPv4'', port = 1900\<rparr>,
      context_upnpData = JObj [(''friendlyName'', JStr ''Somneo'')]\<rparr>, somneoState = initial_somneoState\<rparr>"
    by (simp add: SomneoAccessory_new_def updateSensorData_def nullish_def Let_def)
  from h refresh_once_then_every_minute [OF h, where evs = "[]" and e = GetOn]
  show ?thesis by blast
qed

subsection \<open>The sound value\<close>



section \<open>Properties of the platform\<close>

subsection \<open>Auxiliary facts\<close>

lemma usn_registered_iff: "usn_registered u usns \<longleftrightarrow> u \<in> set usns \<and> u \<noteq> []"
  by (induction usns) (auto simp: usn_registered_def)

lemma seen_usn_is_skipped:
  "USN h \<in> set (registered_usns w) \<Longrightarrow> USN h \<noteq> [] \<Longrightarrow> on_response g h r w = w"
  by (simp add: on_response_def usn_registered_iff)

lemma registered_append: "registered (xs @ ys) = registered xs @ registered ys"
  by (induction xs rule: registered.induct) simp_all

lemma registered_SomneoAccessory_new: "registered (fst (SomneoAccessory_new acc)) = []"
  by (simp add: SomneoAccessory_new_def updateSensorData_def Let_def
        split: option.split)

lemma on_response_usns:
  "registered_usns (on_response g h r w) =
     (if usn_registered (USN h) (registered_usns w) then registered_usns w
      else registered_usns w @ [USN h])"
  by (simp add: on_response_def Let_def split: option.split prod.split sum.split)

lemma on_response_accessories: "accessories (on_response g h r w) = accessories w"
  by (simp add: on_response_def Let_def split: option.split prod.split sum.split)

lemma description_settled_usns:
  "registered_usns (description_settled i d w) = registered_usns w"
  by (simp add: description_settled_def Let_def
        split: description.split prod.split sum.split)

lemma description_settled_accessories:
  "accessories (description_settled i d w) = accessories w"
  by (simp add: description_settled_def Let_def
        split: description.split prod.split sum.split)

lemma step_usns_mono: "set (registered_usns w) \<subseteq> set (registered_usns (step g e w))"
  by (cases e)
     (auto simp: configureAccessory_def on_response_usns description_settled_usns)

lemma run_usns_mono: "set (registered_usns w) \<subseteq> set (registered_usns (run g evs w))"
proof (induction evs arbitrary: w)
  case Nil
  show ?case by simp
next
  case (Cons e evs)
  show ?case
    using step_usns_mono [of w g e] Cons.IH [of "step g e w"] by auto
qed

lemma on_response_new:
  assumes "\<not> usn_registered (USN h) (registered_usns w)"
    and "find (\<lambda>a. UUID a = g (USN h)) (accessories w) = None"
  shows "on_response g h r w =
           w\<lparr>registered_usns := registered_usns w @ [USN h],
             trace := trace w @ [LogInfo [JStr ''Adding new accessory:'', JStr (g (USN h))],
                                 HttpGet (''https://'' @ address r @ ''/upnp/description.xml'')],
             pending := pending w @ [(g (USN h), r)]\<rparr>"
  using assms by (simp add: on_response_def Let_def)

lemma registered_SomneoAccessory_new_eq:
  "SomneoAccessory_new acc = (es, x) \<Longrightarrow> registered es = []"
  using registered_SomneoAccessory_new [of acc] by simp

lemma property_defined: "\<not> nullish (property v k) \<Longrightarrow> \<not> nullish v"
  by (cases v) (simp_all add: nullish_def)

lemma elem0_defined: "\<not> nullish (elem0 v) \<Longrightarrow> \<not> nullish v"
  by (cases v) (simp_all add: nullish_def)

lemma SomneoAccessory_new_succeeds:
  "context_device acc = Some dev \<Longrightarrow> \<not> nullish (context_upnpData acc) \<Longrightarrow>
     snd (SomneoAccessory_new acc) = Inr \<lparr>accessory = acc, somneoState = initial_somneoState\<rparr>"
  by (simp add: SomneoAccessory_new_def updateSensorData_def Let_def)

lemma description_callback_succeeds:
  assumes "\<not> nullish (elem0 (property (property result ''root'') ''device''))"
  shows "\<exists>es. description_callback uuid r result =
           (es, Inr (\<lparr>displayName = property (elem0 (property (property result ''root'')
                                      ''device'')) ''friendlyName'',
                       UUID = uuid, context_device = Some r,
                       context_upnpData = elem0 (property (property result ''root'') ''device'')\<rparr>,
                     \<lparr>accessory =
                        \<lparr>displayName = property (elem0 (property (property result ''root'')
                                        ''device'')) ''friendlyName'',
                         UUID = uuid, context_device = Some r,
                         context_upnpData = elem0 (property (property result ''root'') ''device'')\<rparr>,
                      somneoState = initial_somneoState\<rparr>))
         \<and> registered es =
             [\<lparr>displayName = property (elem0 (property (property result ''root'')
                               ''device'')) ''friendlyName'',
               UUID = uuid, context_device = Some r,
               context_upnpData = elem0 (property (property result ''root'') ''device'')\<rparr>]"
proof -
  let ?devs = "property (property result ''root'') ''device''"
  let ?acc = "\<lparr>displayName = property (elem0 ?devs) ''friendlyName'', UUID = uuid,
               context_device = Some r, context_upnpData = elem0 ?devs\<rparr>"
  from assms have devs: "\<not> nullish ?devs"
    by (rule elem0_defined)
  then have root: "\<not> nullish (property result ''root'')"
    by (rule property_defined)
  then have res: "\<not> nullish result"
    by (rule property_defined)
  have new: "snd (SomneoAccessory_new ?acc)
               = Inr \<lparr>accessory = ?acc, somneoState = initial_somneoState\<rparr>"
    using assms by (intro SomneoAccessory_new_succeeds [where dev = r]) simp_all
  obtain es where es: "SomneoAccessory_new ?acc
                         = (es, Inr \<lparr>accessory = ?acc, somneoState = initial_somneoState\<rparr>)"
    using new by (cases "SomneoAccessory_new ?acc") simp
  have "registered es = []"
    using es by (rule registered_SomneoAccessory_new_eq)
  then show ?thesis
    using assms devs root res es
    by (simp add: description_callback_def Let_def registered_append)
qed

lemma description_callback_failed:
  assumes "isl (snd (description_callback uuid r result))"
  shows "snd (description_callback uuid r result) = Inl TypeError
       \<and> list_all is_LogInfo (fst (description_callback uuid r result))
       \<and> registered (fst (description_callback uuid r result)) = []"
proof (cases "nullish result \<or> nullish (property result ''root'')
              \<or> nullish (property (property result ''root'') ''device'')
              \<or> nullish (elem0 (property (property result ''root'') ''device''))")
  case True
  then show ?thesis
    by (auto simp: description_callback_def Let_def)
next
  case False
  let ?acc = "\<lparr>displayName = property (elem0 (property (property result ''root'') ''device''))
                                ''friendlyName'',
               UUID = uuid, context_device = Some r,
               context_upnpData = elem0 (property (property result ''root'') ''device'')\<rparr>"
  have "snd (SomneoAccessory_new ?acc)
          = Inr \<lparr>accessory = ?acc, somneoState = initial_somneoState\<rparr>"
    using False by (intro SomneoAccessory_new_succeeds [where dev = r]) simp_all
  then have "\<not> isl (snd (description_callback uuid r result))"
    using False
    by (cases "SomneoAccessory_new ?acc") (simp add: description_callback_def Let_def)
  with assms show ?thesis by simp
qed

lemma registered_display_name:
  assumes "\<not> usn_registered (USN h) (registered_usns w)"
    and "find (\<lambda>a. UUID a = g (USN h)) (accessories w) = None"
    and "\<not> nullish (elem0 (property (property result ''root'') ''device''))"
  shows "registered (trace (description_settled (length (pending w)) (GetParsed result escapes)
                              (on_response g h r w)))
           = registered (trace w)
             @ [\<lparr>displayName = property (elem0 (property (property result ''root'') ''device''))
                                ''friendlyName'',
                 UUID = g (USN h), context_device = Some r,
                 context_upnpData = elem0 (property (property result ''root'') ''device'')\<rparr>]"
proof -
  have w1: "on_response g h r w = w\<lparr>registered_usns := registered_usns w @ [USN h],
             trace := trace w @ [LogInfo [JStr ''Adding new accessory:'', JStr (g (USN h))],
                                 HttpGet (''https://'' @ address r @ ''/upnp/description.xml'')],
             pending := pending w @ [(g (USN h), r)]\<rparr>"
    using assms(1,2) by (rule on_response_new)
  from description_callback_succeeds [OF assms(3), of "g (USN h)" r]
  obtain es acc hd where cb: "description_callback (g (USN h)) r result = (es, Inr (acc, hd))"
    and reg: "registered es =
       [\<lparr>displayName = property (elem0 (property (property result ''root'') ''device''))
                                ''friendlyName'',
         UUID = g (USN h), context_device = Some r,
         context_upnpData = elem0 (property (property result ''root'') ''device'')\<rparr>]"
    by blast
  show ?thesis
    unfolding w1 using cb reg
    by (simp add: description_settled_def registered_append)
qed


text \<open>
  For an identifier that is not the empty string, a response is skipped once the
  identifier is in \<open>registered_usns\<close>, whatever has happened in between.
\<close>

lemma later_response_is_skipped:
  assumes "USN h \<noteq> []"
  shows "step g (Response h r') (run g evs (on_response g h r w))
           = run g evs (on_response g h r w)"
proof -
  have "USN h \<in> set (registered_usns (on_response g h r w))"
    using assms by (simp add: on_response_usns usn_registered_iff)
  then have "USN h \<in> set (registered_usns (run g evs (on_response g h r w)))"
    using run_usns_mono [of "on_response g h r w" g evs] by auto
  then show ?thesis
    using assms by (simp add: seen_usn_is_skipped)
qed

subsection \<open>Repeated responses\<close>

text \<open>
  C1. Two responses whose USN is the empty string: the second one is not skipped. The
  identifier is pushed a second time, a second description request is sent, and when both
  requests succeed two accessories with the same UUID are registered with the host.
\<close>

theorem empty_usn_is_registered_twice:
  "registered_usns (run (append ''uuid-'')
      [Response \<lparr>USN = ''''\<rparr> \<lparr>address = ''192.168.1.20'', family = ''IPv4'', port = 1900\<rparr>,
       Response \<lparr>USN = ''''\<rparr> \<lparr>address = ''192.168.1.20'', family = ''IPv4'', port = 1900\<rparr>]
      start) = ['''', '''']
   \<and> filter is_HttpGet (trace (run (append ''uuid-'')
      [Response \<lparr>USN = ''''\<rparr> \<lparr>address = ''192.168.1.20'', family = ''IPv4'', port = 1900\<rparr>,
       Response \<lparr>USN = ''''\<rparr> \<lparr>address = ''192.168.1.20'', family = ''IPv4'', port = 1900\<rparr>]
      start))
     = [HttpGet ''https://192.168.1.20/upnp/description.xml'',
        HttpGet ''https://192.168.1.20/upnp/description.xml'']
   \<and> map UUID (registered (trace (run (append ''uuid-'')
      [Response \<lparr>USN = ''''\<rparr> \<lparr>address = ''192.168.1.20'', family = ''IPv4'', port = 1900\<rparr>,
       Response \<lparr>USN = ''''\<rparr> \<lparr>address = ''192.168.1.20'', family = ''IPv4'', port = 1900\<rparr>,
       DescriptionSettled 0 (GetParsed (JObj [(''root'', JObj [(''device'',
          JArr [JObj [(''friendlyName'', JStr ''Somneo'')]])])]) False),
       DescriptionSettled 0 (GetParsed (JObj [(''root'', JObj [(''device'',
          JArr [JObj [(''friendlyName'', JStr ''Somneo'')]])])]) False)]
      start)))
     = [''uuid-'', ''uuid-'']"
  by (simp add: on_response_def description_settled_def description_callback_def
        SomneoAccessory_new_def updateSensorData_def nullish_def
        usn_registered_def start_def Let_def)

subsection \<open>A description request that fails\<close>

text \<open>
  C2, as the code has it. Take a response, any events after it, and a description request
  in flight then: the one this response started or any other. When that request is
  rejected, or the parser's callback throws, no handler is made and nothing is registered
  with the host; the accessory list and \<open>registered_usns\<close> are as before; the request
  leaves the requests in flight; and all that is added to the trace are log lines: the
  error of a rejection, or for a throwing callback what the callback had logged, followed
  by the thrown error when that reaches the \<open>catch\<close> handler. The identifier of the
  response was recorded when the response arrived and stays recorded, so when it is not
  the empty string every later response that carries it is skipped.
\<close>

theorem failed_description_keeps_usn:
  assumes "w = run g earlier (on_response g h r init)"
    and "i < length (pending w)"
    and "d = GetRejected error
         \<or> d = GetParsed result escapes
            \<and> isl (snd (description_callback (fst (pending w ! i)) (snd (pending w ! i)) result))"
  shows "accessories (description_settled i d w) = accessories w
       \<and> handlers (description_settled i d w) = handlers w
       \<and> registered (trace (description_settled i d w)) = registered (trace w)
       \<and> registered_usns (description_settled i d w) = registered_usns w
       \<and> USN h \<in> set (registered_usns (description_settled i d w))
       \<and> pending (description_settled i d w) = take i (pending w) @ drop (Suc i) (pending w)
       \<and> take (length (trace w)) (trace (description_settled i d w)) = trace w
       \<and> list_all is_LogInfo (drop (length (trace w)) (trace (description_settled i d w)))
       \<and> (d = GetRejected error \<longrightarrow>
            trace (description_settled i d w) = trace w @ [LogInfo [error]])
       \<and> (d = GetParsed result escapes \<longrightarrow>
            trace (description_settled i d w)
              = trace w
                @ fst (description_callback (fst (pending w ! i)) (snd (pending w ! i)) result)
                @ (if escapes then [LogInfo [TypeError]] else []))
       \<and> (USN h \<noteq> [] \<longrightarrow>
            step g (Response h r') (run g evs (description_settled i d w))
              = run g evs (description_settled i d w))"
proof -
  let ?w' = "description_settled i d w"
  obtain uuid ri where p: "pending w ! i = (uuid, ri)"
    by (cases "pending w ! i")
  have usns: "registered_usns ?w' = registered_usns w"
    by (rule description_settled_usns)
  have acc: "accessories ?w' = accessories w"
    by (rule description_settled_accessories)
  have "USN h \<in> set (registered_usns (on_response g h r init))"
    by (simp add: on_response_usns usn_registered_iff)
  then have mem: "USN h \<in> set (registered_usns ?w')"
    using run_usns_mono [of "on_response g h r init" g earlier] assms(1) usns by auto
  then have "USN h \<in> set (registered_usns (run g evs ?w'))"
    using run_usns_mono [of ?w' g evs] by auto
  then have later: "USN h \<noteq> [] \<longrightarrow>
      step g (Response h r') (run g evs ?w') = run g evs ?w'"
    by (simp add: seen_usn_is_skipped)
  from assms(3) have rest: "handlers ?w' = handlers w
      \<and> registered (trace ?w') = registered (trace w)
      \<and> pending ?w' = take i (pending w) @ drop (Suc i) (pending w)
      \<and> take (length (trace w)) (trace ?w') = trace w
      \<and> list_all is_LogInfo (drop (length (trace w)) (trace ?w'))
      \<and> (d = GetRejected error \<longrightarrow> trace ?w' = trace w @ [LogInfo [error]])
      \<and> (d = GetParsed result escapes \<longrightarrow>
            trace ?w' = trace w
                @ fst (description_callback (fst (pending w ! i)) (snd (pending w ! i)) result)
                @ (if escapes then [LogInfo [TypeError]] else []))"
  proof
    assume "d = GetRejected error"
    then show ?thesis
      using assms(2) p by (simp add: description_settled_def registered_append)
  next
    assume f: "d = GetParsed result escapes
         \<and> isl (snd (description_callback (fst (pending w ! i)) (snd (pending w ! i)) result))"
    with p description_callback_failed [of uuid ri result]
    obtain es where cb: "description_callback uuid ri result = (es, Inl TypeError)"
      and es: "list_all is_LogInfo es" "registered es = []"
      by (cases "description_callback uuid ri result") auto
    from f cb es assms(2) p show ?thesis
      by (simp add: description_settled_def registered_append)
  qed
  from usns acc mem later rest show ?thesis by blast
qed

theorem failed_description_keeps_usn_witness:
  "0 < length (pending (run (append ''uuid-'')
         [Response \<lparr>USN = ''uuid:5678''\<rparr>
            \<lparr>address = ''192.168.1.21'', family = ''IPv4'', port = 1900\<rparr>]
         (on_response (append ''uuid-'') \<lparr>USN = ''uuid:1234''\<rparr>
            \<lparr>address = ''192.168.1.20'', family = ''IPv4'', port = 1900\<rparr> start)))
   \<and> isl (snd (description_callback
         (fst (pending (run (append ''uuid-'')
            [Response \<lparr>USN = ''uuid:5678''\<rparr>
               \<lparr>address = ''192.168.1.21'', family = ''IPv4'', port = 1900\<rparr>]
            (on_response (append ''uuid-'') \<lparr>USN = ''uuid:1234''\<rparr>
               \<lparr>address = ''192.168.1.20'', family = ''IPv4'', port = 1900\<rparr> start)) ! 0))
         (snd (pending (run (append ''uuid-'')
            [Response \<lparr>USN = ''uuid:5678''\<rparr>
               \<lparr>address = ''192.168.1.21'', family = ''IPv4'', port = 1900\<rparr>]
            (on_response (append ''uuid-'') \<lparr>USN = ''uuid:1234''\<rparr>
               \<lparr>address = ''192.168.1.20'', family = ''IPv4'', port = 1900\<rparr> start)) ! 0))
         JUndefined))
   \<and> USN \<lparr>USN = ''uuid:1234''\<rparr> \<noteq> []
   \<and> registered_usns (description_settled 0 (GetParsed JUndefined True)
         (run (append ''uuid-'')
            [Response \<lparr>USN = ''uuid:5678''\<rparr>
               \<lparr>address = ''192.168.1.21'', family = ''IPv4'', port = 1900\<rparr>]
            (on_response (append ''uuid-'') \<lparr>USN = ''uuid:1234''\<rparr>
               \<lparr>address = ''192.168.1.20'', family = ''IPv4'', port = 1900\<rparr> start)))
       = [''uuid:1234'', ''uuid:5678'']
   \<and> drop 4 (trace (description_settled 0 (GetParsed JUndefined True)
         (run (append ''uuid-'')
            [Response \<lparr>USN = ''uuid:5678''\<rparr>
               \<lparr>address = ''192.168.1.21'', family = ''IPv4'', port = 1900\<rparr>]
            (on_response (append ''uuid-'') \<lparr>USN = ''uuid:1234''\<rparr>
               \<lparr>address = ''192.168.1.20'', family = ''IPv4'', port = 1900\<rparr> start))))
       = [LogInfo [TypeError]]
   \<and> step (append ''uuid-'')
         (Response \<lparr>USN = ''uuid:1234''\<rparr>
            \<lparr>address = ''192.168.1.20'', family = ''IPv4'', port = 1900\<rparr>)
         (run (append ''uuid-'') []
            (description_settled 0 (GetParsed JUndefined True)
               (run (append ''uuid-'')
                  [Response \<lparr>USN = ''uuid:5678''\<rparr>
                     \<lparr>address = ''192.168.1.21'', family = ''IPv4'', port = 1900\<rparr>]
                  (on_response (append ''uuid-'') \<lparr>USN = ''uuid:1234''\<rparr>
                     \<lparr>address = ''192.168.1.20'', family = ''IPv4'', port = 1900\<rparr> start))))
       = run (append ''uuid-'') []
            (description_settled 0 (GetParsed JUndefined True)
               (run (append ''uuid-'')
                  [Response \<lparr>USN = ''uuid:5678''\<rparr>
                     \<lparr>address = ''192.168.1.21'', family = ''IPv4'', port = 1900\<rparr>]
                  (on_response (append ''uuid-'') \<lparr>USN = ''uuid:1234''\<rparr>
                     \<lparr>address = ''192.168.1.20'', family = ''IPv4'', port = 1900\<rparr> start)))"
proof -
  let ?w = "run (append ''uuid-'')
         [Response \<lparr>USN = ''uuid:5678''\<rparr>
            \<lparr>address = ''192.168.1.21'', family = ''IPv4'', port = 1900\<rparr>]
         (on_response (append ''uuid-'') \<lparr>USN = ''uuid:1234''\<rparr>
            \<lparr>address = ''192.168.1.20'', family = ''IPv4'', port = 1900\<rparr> start)"
  have w: "?w = \<lparr>accessories = [], registered_usns = [''uuid:1234'', ''uuid:5678''],
       trace = [LogInfo [JStr ''Adding new accessory:'', JStr ''uuid-uuid:1234''],
                HttpGet ''https://192.168.1.20/upnp/description.xml'',
                LogInfo [JStr ''Adding new accessory:'', JStr ''uuid-uuid:5678''],
                HttpGet ''https://192.168.1.21/upnp/description.xml''],
       handlers = [],
       pending = [(''uuid-uuid:1234'',
                   \<lparr>address = ''192.168.1.20'', family = ''IPv4'', port = 1900\<rparr>),
                  (''uuid-uuid:5678'',
                   \<lparr>address = ''192.168.1.21'', family = ''IPv4'', port = 1900\<rparr>)]\<rparr>"
    by (simp add: on_response_def usn_registered_def start_def Let_def)
  have h1: "?w = ?w"
    by (rule refl)
  have h2: "0 < length (pending ?w)"
    unfolding w by simp
  have cb: "isl (snd (description_callback (fst (pending ?w ! 0)) (snd (pending ?w ! 0))
                       JUndefined))"
    by (simp add: description_callback_def nullish_def)
  then have h3: "GetParsed JUndefined True = GetRejected JNull
      \<or> GetParsed JUndefined True = GetParsed JUndefined True
        \<and> isl (snd (description_callback (fst (pending ?w ! 0)) (snd (pending ?w ! 0))
                       JUndefined))"
    by simp
  have h4: "USN \<lparr>USN = ''uuid:1234''\<rparr> \<noteq> []"
    by simp
  note inst = failed_description_keeps_usn
    [where g = "append ''uuid-''" and h = "\<lparr>USN = ''uuid:1234''\<rparr>" and init = start
       and r = "\<lparr>address = ''192.168.1.20'', family = ''IPv4'', port = 1900\<rparr>"
       and earlier = "[Response \<lparr>USN = ''uuid:5678''\<rparr>
            \<lparr>address = ''192.168.1.21'', family = ''IPv4'', port = 1900\<rparr>]"
       and w = ?w and i = 0 and d = "GetParsed JUndefined True" and error = JNull
       and result = JUndefined and escapes = True and evs = "[]"
       and r' = "\<lparr>address = ''192.168.1.20'', family = ''IPv4'', port = 1900\<rparr>",
     OF h1 h2 h3]
  from inst have usns: "registered_usns (description_settled 0 (GetParsed JUndefined True) ?w)
                         = registered_usns ?w"
    by blast
  from inst have tr: "trace (description_settled 0 (GetParsed JUndefined True) ?w)
      = trace ?w
        @ fst (description_callback (fst (pending ?w ! 0)) (snd (pending ?w ! 0)) JUndefined)
        @ (if True then [LogInfo [TypeError]] else [])"
    by blast
  from inst h4 have later: "step (append ''uuid-'')
         (Response \<lparr>USN = ''uuid:1234''\<rparr>
            \<lparr>address = ''192.168.1.20'', family = ''IPv4'', port = 1900\<rparr>)
         (run (append ''uuid-'') [] (description_settled 0 (GetParsed JUndefined True) ?w))
       = run (append ''uuid-'') [] (description_settled 0 (GetParsed JUndefined True) ?w)"
    by blast
  have usns': "registered_usns (description_settled 0 (GetParsed JUndefined True) ?w)
                 = [''uuid:1234'', ''uuid:5678'']"
    using usns unfolding w by simp
  have tr': "drop 4 (trace (description_settled 0 (GetParsed JUndefined True) ?w))
               = [LogInfo [TypeError]]"
    unfolding tr unfolding w by (simp add: description_callback_def nullish_def)
  from h2 cb h4 usns' tr' later show ?thesis
    by blast
qed

text \<open>
  C2 as stated fails: after a rejected description request, a later response with the same
  identifier changes nothing, so no request is in flight and nothing gets registered.
\<close>

theorem failed_description_is_not_retried:
  "step (append ''uuid-'')
     (Response \<lparr>USN = ''uuid:1234''\<rparr> \<lparr>address = ''192.168.1.20'', family = ''IPv4'', port = 1900\<rparr>)
     (run (append ''uuid-'')
        [Response \<lparr>USN = ''uuid:1234''\<rparr>
           \<lparr>address = ''192.168.1.20'', family = ''IPv4'', port = 1900\<rparr>,
         DescriptionSettled 0 (GetRejected (JStr ''ECONNREFUSED''))] start)
   = run (append ''uuid-'')
        [Response \<lparr>USN = ''uuid:1234''\<rparr>
           \<lparr>address = ''192.168.1.20'', family = ''IPv4'', port = 1900\<rparr>,
         DescriptionSettled 0 (GetRejected (JStr ''ECONNREFUSED''))] start
   \<and> pending (run (append ''uuid-'')
        [Response \<lparr>USN = ''uuid:1234''\<rparr>
           \<lparr>address = ''192.168.1.20'', family = ''IPv4'', port = 1900\<rparr>,
         DescriptionSettled 0 (GetRejected (JStr ''ECONNREFUSED'')),
         Response \<lparr>USN = ''uuid:1234''\<rparr>
           \<lparr>address = ''192.168.1.20'', family = ''IPv4'', port = 1900\<rparr>] start) = []
   \<and> registered (trace (run (append ''uuid-'')
        [Response \<lparr>USN = ''uuid:1234''\<rparr>
           \<lparr>address = ''192.168.1.20'', family = ''IPv4'', port = 1900\<rparr>,
         DescriptionSettled 0 (GetRejected (JStr ''ECONNREFUSED'')),
         Response \<lparr>USN = ''uuid:1234''\<rparr>
           \<lparr>address = ''192.168.1.20'', family = ''IPv4'', port = 1900\<rparr>] start)) = []
   \<and> handlers (run (append ''uuid-'')
        [Response \<lparr>USN = ''uuid:1234''\<rparr>
           \<lparr>address = ''192.168.1.20'', family = ''IPv4'', port = 1900\<rparr>,
         DescriptionSettled 0 (GetRejected (JStr ''ECONNREFUSED'')),
         Response \<lparr>USN = ''uuid:1234''\<rparr>
           \<lparr>address = ''192.168.1.20'', family = ''IPv4'', port = 1900\<rparr>] start) = []"
  by (simp add: on_response_def description_settled_def usn_registered_def start_def Let_def)

subsection \<open>The display name\<close>

text \<open>
  C7. A description with one device whose \<open>friendlyName\<close> element holds the text Somneo,
  received for a new identifier with no cached accessory: what the program reads as
  \<open>result.root.device[0].friendlyName\<close> is the one-element array that the parser makes of
  the element, and the program hands it on as it is. The accessory it registers, and the
  one its new handler holds, has that array for its display name, not the string.
\<close>

theorem friendly_name_is_registered_wrapped:
  "property (elem0 (property (property
       (xml2js_parseString (''root'', Element
          [(''specVersion'', Element [(''major'', Text ''1''), (''minor'', Text ''0'')]),
           (''device'', Element
              [(''friendlyName'', Text ''Somneo''), (''manufacturer'', Text ''Philips''),
               (''modelName'', Text ''HF3670''), (''UDN'', Text ''uuid:1234'')])]))
       ''root'') ''device'')) ''friendlyName''
     = JArr [JStr ''Somneo'']
   \<and> map displayName (registered (trace (run (append ''uuid-'')
       [Response \<lparr>USN = ''uuid:1234''\<rparr>
          \<lparr>address = ''192.168.1.20'', family = ''IPv4'', port = 1900\<rparr>,
        DescriptionSettled 0 (GetParsed
          (xml2js_parseString (''root'', Element
             [(''specVersion'', Element [(''major'', Text ''1''), (''minor'', Text ''0'')]),
              (''device'', Element
                 [(''friendlyName'', Text ''Somneo''), (''manufacturer'', Text ''Philips''),
                  (''modelName'', Text ''HF3670''), (''UDN'', Text ''uuid:1234'')])]))
          False)]
       start)))
     = [JArr [JStr ''Somneo'']]
   \<and> map (\<lambda>h. displayName (accessory h)) (handlers (run (append ''uuid-'')
       [Response \<lparr>USN = ''uuid:1234''\<rparr>
          \<lparr>address = ''192.168.1.20'', family = ''IPv4'', port = 1900\<rparr>,
        DescriptionSettled 0 (GetParsed
          (xml2js_parseString (''root'', Element
             [(''specVersion'', Element [(''major'', Text ''1''), (''minor'', Text ''0'')]),
              (''device'', Element
                 [(''friendlyName'', Text ''Somneo''), (''manufacturer'', Text ''Philips''),
                  (''modelName'', Text ''HF3670''), (''UDN'', Text ''uuid:1234'')])]))
          False)]
       start))
     = [JArr [JStr ''Somneo'']]
   \<and> JArr [JStr ''Somneo''] \<noteq> JStr ''Somneo''"
  by (simp add: xml2js_parseString_def on_response_def description_settled_def
        description_callback_def SomneoAccessory_new_def updateSensorData_def nullish_def
        usn_registered_def start_def Let_def)

end
